theory Spec2Isabelle
  imports Complex_Main "HOL-Library.Sublist"
begin

section \<open>Python strings\<close>

text \<open>
  A Python \<open>str\<close> is modelled by the \<^typ>\<open>string\<close> of its UTF-8 bytes. The
  text operations of the engine are modelled on the ASCII range: \<open>str.lower\<close> maps
  \<open>A..Z\<close> to \<open>a..z\<close>, and the whitespace of \<open>str.strip\<close> and \<open>str.split\<close>
  is the set of code points 9 to 13 and 28 to 32. Bytes from 128 on are kept as they
  are, which is what Python does with every code point that is neither cased nor
  whitespace (the bullets and emoji of the default response among them).
\<close>

definition is_space :: "char \<Rightarrow> bool" where
  "is_space c = (let n = (of_char c :: nat) in (9 \<le> n \<and> n \<le> 13) \<or> (28 \<le> n \<and> n \<le> 32))"

definition lower_char :: "char \<Rightarrow> char" where
  "lower_char c =
     (let n = (of_char c :: nat) in if 65 \<le> n \<and> n \<le> 90 then char_of (n + 32) else c)"

text \<open>\<open>text.lower()\<close>\<close>

definition py_lower :: "string \<Rightarrow> string" where
  "py_lower s = map lower_char s"

text \<open>\<open>text.strip()\<close>: whitespace is removed from both ends.\<close>

definition py_strip :: "string \<Rightarrow> string" where
  "py_strip s = rev (dropWhile is_space (rev (dropWhile is_space s)))"

text \<open>
  \<open>text.split()\<close> with no separator: skip whitespace, take the run of characters up
  to the next whitespace, and go on after it; no empty token is produced.
\<close>

function py_split :: "string \<Rightarrow> string list" where
  "py_split [] = []"
| "py_split (c # cs) =
     (if is_space c then py_split cs
      else (c # takeWhile (\<lambda>d. \<not> is_space d) cs)
             # py_split (dropWhile (\<lambda>d. \<not> is_space d) cs))"
  by pat_completeness auto
termination
  by (relation "measure length") (auto simp: length_dropWhile_le less_Suc_eq_le)

text \<open>\<open>sep.join(parts)\<close>\<close>

fun py_join :: "string \<Rightarrow> string list \<Rightarrow> string" where
  "py_join sep [] = []"
| "py_join sep [t] = t"
| "py_join sep (t # u # ts) = t @ sep @ py_join sep (u # ts)"

text \<open>\<open>kw in msg\<close> on two strings: \<open>kw\<close> occurs in \<open>msg\<close> as a contiguous run.\<close>

definition py_in :: "string \<Rightarrow> string \<Rightarrow> bool" where
  "py_in kw msg = sublist kw msg"

text \<open>
  Iterating over a \<open>str\<close> yields its code points, each a string of its own: in UTF-8
  a code point is a byte that is no continuation byte (\<open>0x80..0xBF\<close>) together with
  the continuation bytes after it.
\<close>

definition is_continuation :: "char \<Rightarrow> bool" where
  "is_continuation c = (let n = (of_char c :: nat) in 128 \<le> n \<and> n \<le> 191)"

function codepoints :: "string \<Rightarrow> string list" where
  "codepoints [] = []"
| "codepoints (c # cs) =
     (c # takeWhile is_continuation cs) # codepoints (dropWhile is_continuation cs)"
  by pat_completeness auto
termination
  by (relation "measure length") (auto simp: length_dropWhile_le less_Suc_eq_le)

section \<open>Values and exceptions\<close>

text \<open>
  What \<open>json.load\<close> returns: \<open>None\<close>, a bool, a number, a \<open>str\<close>, a \<open>list\<close> or a
  \<open>dict\<close>. A dict is the list of its items, each key once; the engine never looks
  at a number's value.
\<close>

datatype json =
    JNull
  | JBool bool
  | JNum int
  | is_JStr: JStr (str_of: string)
  | JArr "json list"
  | JObj "(string \<times> json) list"

datatype py_error =
    FileNotFoundError
  | JSONDecodeError
  | PermissionError
  | IsADirectoryError
  | UnicodeDecodeError
  | AttributeError
  | TypeError

text \<open>\<open>d.get(key, default)\<close>: only a dict has the method.\<close>

fun dict_get :: "json \<Rightarrow> string \<Rightarrow> json \<Rightarrow> py_error + json" where
  "dict_get (JObj kvs) key dflt = Inr (case map_of kvs key of None \<Rightarrow> dflt | Some v \<Rightarrow> v)"
| "dict_get _ key dflt = Inl AttributeError"

text \<open>\<open>len(v)\<close>\<close>

fun py_len :: "json \<Rightarrow> py_error + nat" where
  "py_len (JArr xs) = Inr (length xs)"
| "py_len (JStr s) = Inr (length (codepoints s))"
| "py_len (JObj kvs) = Inr (length kvs)"
| "py_len _ = Inl TypeError"

text \<open>\<open>for x in v\<close>: the elements of a list, the code points of a string, the keys of a dict.\<close>

fun py_iter :: "json \<Rightarrow> py_error + json list" where
  "py_iter (JArr xs) = Inr xs"
| "py_iter (JStr s) = Inr (map JStr (codepoints s))"
| "py_iter (JObj kvs) = Inr (map (\<lambda>kv. JStr (fst kv)) kvs)"
| "py_iter _ = Inl TypeError"

section \<open>The engine\<close>

record HealthChatbot =
  intents_file :: string
  intents :: json

text \<open>
  What \<open>open(file_path)\<close> followed by \<open>json.load(file)\<close> does at the path of the
  engine: it raises, or it returns the parsed document.
\<close>

datatype read_outcome = Raises py_error | Document json

text \<open>
  \<open>load_intents\<close>: the two \<open>except\<close> clauses catch \<open>FileNotFoundError\<close> and
  \<open>json.JSONDecodeError\<close>; the \<open>print\<close> after the assignment evaluates
  \<open>len(self.intents)\<close> inside the \<open>try\<close>. The result is the engine after the call
  and the exception that leaves the method, if any.
\<close>

definition load_intents :: "read_outcome \<Rightarrow> HealthChatbot \<Rightarrow> HealthChatbot \<times> py_error option" where
  "load_intents outcome self =
     (case outcome of
        Raises e \<Rightarrow>
          if e = FileNotFoundError \<or> e = JSONDecodeError
          then (self\<lparr>intents := JArr []\<rparr>, None)
          else (self, Some e)
      | Document data \<Rightarrow>
          (case dict_get data ''intents'' (JArr []) of
             Inl e \<Rightarrow> (self, Some e)
           | Inr v \<Rightarrow>
               (case py_len v of
                  Inl e \<Rightarrow> (self\<lparr>intents := v\<rparr>, Some e)
                | Inr n \<Rightarrow> (self\<lparr>intents := v\<rparr>, None))))"

text \<open>\<open>__init__\<close>: the fields are set, the intents are loaded and their number is printed.\<close>

definition init :: "read_outcome \<Rightarrow> string \<Rightarrow> HealthChatbot \<times> py_error option" where
  "init outcome file =
     (case load_intents outcome \<lparr>intents_file = file, intents = JArr []\<rparr> of
        (self, Some e) \<Rightarrow> (self, Some e)
      | (self, None) \<Rightarrow>
          (case py_len (intents self) of
             Inl e \<Rightarrow> (self, Some e)
           | Inr n \<Rightarrow> (self, None)))"

text \<open>\<open>clean_text\<close>\<close>

definition clean_text :: "string \<Rightarrow> string" where
  "clean_text text = py_join '' '' (py_split (py_strip (py_lower text)))"

text \<open>\<open>clean_text\<close> on a value of the knowledge base: only a \<open>str\<close> has \<open>lower\<close>.\<close>

fun clean_text_value :: "json \<Rightarrow> py_error + string" where
  "clean_text_value (JStr s) = Inr (clean_text s)"
| "clean_text_value _ = Inl AttributeError"

text \<open>\<open>check_keywords\<close>: the loop over the keywords, then the method.\<close>

fun check_keywords_loop :: "string \<Rightarrow> json list \<Rightarrow> py_error + bool" where
  "check_keywords_loop user_message [] = Inr False"
| "check_keywords_loop user_message (keyword # rest) =
     (case clean_text_value keyword of
        Inl e \<Rightarrow> Inl e
      | Inr kw \<Rightarrow> if py_in kw user_message then Inr True
                  else check_keywords_loop user_message rest)"

definition check_keywords :: "string \<Rightarrow> json \<Rightarrow> py_error + bool" where
  "check_keywords user_message keywords =
     (let user_message = clean_text user_message in
      case py_iter keywords of
        Inl e \<Rightarrow> Inl e
      | Inr ks \<Rightarrow> check_keywords_loop user_message ks)"

definition bullet :: string where
  "bullet = [CHR 0xE2, CHR 0x80, CHR 0xA2]"

definition default_response :: string where
  "default_response =
     ''I'm not sure about that specific topic. I can help you with:'' @ [CHR 10, CHR 10]
     @ ''<strong>Common Health Topics:</strong>'' @ [CHR 10]
     @ bullet @ '' Fever, Cold, Flu, Headache'' @ [CHR 10]
     @ bullet @ '' Diabetes, Blood Pressure, Heart Disease'' @ [CHR 10]
     @ bullet @ '' Burns, Cuts, Wounds, Sprains'' @ [CHR 10]
     @ bullet @ '' CPR, Choking, First Aid'' @ [CHR 10]
     @ bullet @ '' Asthma, Allergies, COVID-19'' @ [CHR 10]
     @ bullet @ '' Nutrition, Exercise, Sleep'' @ [CHR 10]
     @ bullet @ '' Mental Health, Stress, Anxiety'' @ [CHR 10]
     @ bullet @ '' Pregnancy, Women's Health'' @ [CHR 10]
     @ bullet @ '' Child Health, Vaccinations'' @ [CHR 10, CHR 10]
     @ ''Please ask about any of these topics, and I'll provide detailed information! ''
     @ [CHR 0xF0, CHR 0x9F, CHR 0x98, CHR 0x8A, CHR 10, CHR 10]
     @ ''<em>'' @ [CHR 0xF0, CHR 0x9F, CHR 0x92, CHR 0xA1]
     @ '' Tip: Try to be specific, like '' @ [CHR 0x22] @ ''What are fever symptoms?''
     @ [CHR 0x22] @ '' or '' @ [CHR 0x22] @ ''How to treat burns?'' @ [CHR 0x22] @ ''</em>''"

text \<open>
  \<open>get_response\<close>: the loop over the intents, then the method. The confidence literals
  \<open>0.95\<close> and \<open>0.3\<close> are the rationals they denote; nothing is computed with them. The
  method returns the engine as it leaves it together with its result.
\<close>

fun get_response_loop :: "string \<Rightarrow> json list \<Rightarrow> py_error + json \<times> rat" where
  "get_response_loop user_message [] = Inr (JStr default_response, 3 / 10)"
| "get_response_loop user_message (intent # rest) =
     (case dict_get intent ''keywords'' (JArr []) of
        Inl e \<Rightarrow> Inl e
      | Inr keywords \<Rightarrow>
          (case check_keywords user_message keywords of
             Inl e \<Rightarrow> Inl e
           | Inr True \<Rightarrow>
               (case dict_get intent ''response'' (JStr []) of
                  Inl e \<Rightarrow> Inl e
                | Inr response \<Rightarrow> Inr (response, 95 / 100))
           | Inr False \<Rightarrow> get_response_loop user_message rest))"

definition get_response :: "string \<Rightarrow> HealthChatbot \<Rightarrow> HealthChatbot \<times> (py_error + json \<times> rat)" where
  "get_response user_message self =
     (let user_message = clean_text user_message in
      (self,
       case py_iter (intents self) of
         Inl e \<Rightarrow> Inl e
       | Inr xs \<Rightarrow> get_response_loop user_message xs))"

section \<open>The data model of the knowledge base\<close>








section \<open>The scenarios of the specification\<close>

text \<open>
  The two entries of the specification's concrete scenarios, a third entry that shares
  a keyword with the second, an entry that carries a whitespace-only keyword, and
  engines holding them.
\<close>

definition fever_entry :: json where
  "fever_entry =
     JObj [(''keywords'', JArr [JStr ''fever'', JStr ''high temperature'']),
           (''response'', JStr ''Fever care: rest and fluids.'')]"

definition burn_entry :: json where
  "burn_entry =
     JObj [(''keywords'', JArr [JStr ''burn'']),
           (''response'', JStr ''Burn care: cool water, no ice.'')]"



definition scenario_engine :: HealthChatbot where
  "scenario_engine =
     \<lparr>intents_file = ''data/intents.json'', intents = JArr [fever_entry, burn_entry]\<rparr>"



section \<open>Normalization\<close>































section \<open>Matching\<close>














section \<open>Claims\<close>





text \<open>
  C3. \<open>load_intents\<close> catches a missing source (\<open>FileNotFoundError\<close>) and a text that
  does not parse (\<open>JSONDecodeError\<close>) and leaves the empty list of intents; every
  other failure of the read leaves the method as an exception, and so does a parsed
  document that is no dict; a dict whose \<open>intents\<close> is a list is loaded.
\<close>

theorem load_intents_caught:
  "(e1 = FileNotFoundError \<or> e1 = JSONDecodeError \<longrightarrow>
      load_intents (Raises e1) self = (self\<lparr>intents := JArr []\<rparr>, None))
   \<and> (e2 \<noteq> FileNotFoundError \<and> e2 \<noteq> JSONDecodeError \<longrightarrow>
      load_intents (Raises e2) self = (self, Some e2))
   \<and> (\<not> is_JObj d \<longrightarrow> load_intents (Document d) self = (self, Some AttributeError))
   \<and> (map_of doc ''intents'' = Some (JArr xs) \<longrightarrow>
      load_intents (Document (JObj doc)) self = (self\<lparr>intents := JArr xs\<rparr>, None))"
  by (cases d) (simp_all add: load_intents_def)

theorem load_intents_caught_witness:
  "load_intents (Raises JSONDecodeError) scenario_engine = (scenario_engine\<lparr>intents := JArr []\<rparr>, None)
   \<and> UnicodeDecodeError \<noteq> FileNotFoundError \<and> UnicodeDecodeError \<noteq> JSONDecodeError
   \<and> load_intents (Raises UnicodeDecodeError) scenario_engine = (scenario_engine, Some UnicodeDecodeError)
   \<and> \<not> is_JObj (JStr ''intents'')
   \<and> load_intents (Document (JStr ''intents'')) scenario_engine = (scenario_engine, Some AttributeError)
   \<and> map_of [(''intents'', JArr [burn_entry])] ''intents'' = Some (JArr [burn_entry])
   \<and> load_intents (Document (JObj [(''intents'', JArr [burn_entry])])) scenario_engine =
       (scenario_engine\<lparr>intents := JArr [burn_entry]\<rparr>, None)"
  using load_intents_caught [of JSONDecodeError scenario_engine UnicodeDecodeError
      "JStr ''intents''" "[(''intents'', JArr [burn_entry])]" "[burn_entry]"]
  by simp

theorem load_intents_raises_counterexample:
  "snd (load_intents (Document (JArr [])) \<lparr>intents_file = ''data/intents.json'', intents = JArr []\<rparr>)
     = Some AttributeError
   \<and> snd (load_intents (Raises PermissionError) \<lparr>intents_file = ''data/intents.json'', intents = JArr []\<rparr>)
     = Some PermissionError"
  by (simp add: load_intents_def)

text \<open>
  C4. An engine built on a missing source holds no intent and answers every message
  with the default response and confidence 0.3; built on a text that does not parse,
  it is the same engine.
\<close>

theorem init_missing_or_malformed:
  "init (Raises FileNotFoundError) file = (\<lparr>intents_file = file, intents = JArr []\<rparr>, None)
   \<and> get_response msg (fst (init (Raises FileNotFoundError) file)) =
       (fst (init (Raises FileNotFoundError) file), Inr (JStr default_response, 3 / 10))
   \<and> init (Raises JSONDecodeError) file = init (Raises FileNotFoundError) file"
  by (simp add: init_def load_intents_def get_response_def)











end
